theory Spec2Isabelle
  imports Main "HOL-Library.Sublist"
begin

section \<open>The submit handler of \<open>static/script.js\<close>\<close>

text \<open>
  The file registers one asynchronous listener for the \<open>submit\<close> event of the form
  \<open>gemini-form\<close>. The listener is modelled as the list of effects it performs, in program
  order, as a function of what it is given: the form's entries at the moment of the
  trigger and what the network answers at the two \<open>await\<close>s. The effects are then run on
  a record of the page. The handler never reads the page, so its effects do not depend
  on the state they are run on.

  Strings are \<open>string\<close>, holding the UTF-8 bytes of the JavaScript string.
\<close>

subsection \<open>JavaScript values\<close>

text \<open>
  A \<open>json\<close> is a value that \<open>JSON.parse\<close> can produce. A number is represented by its
  rendering under \<open>Number::toString\<close>; the handler uses a number of the body only through
  that rendering and through its truthiness. An object is the list of its own properties,
  with distinct keys, as \<open>JSON.parse\<close> builds it.

  A \<open>jsval\<close> is what a property read can produce: \<open>None\<close> is \<open>undefined\<close>.
\<close>

datatype json =
    JNull
  | JBool bool
  | JNum string
  | JStr string
  | JArr "json list"
  | JObj "(string \<times> json) list"

type_synonym jsval = "json option"

text \<open>What the \<open>try\<close> block can throw, by the step that throws it.\<close>

datatype js_error =
    FetchRejected      \<comment> \<open>the promise of \<open>fetch\<close> rejects: no response was received\<close>
  | JsonRejected       \<comment> \<open>the promise of \<open>response.json()\<close> rejects: the body is not JSON\<close>
  | TypeError          \<comment> \<open>a property is read from \<open>null\<close>, or an object has no string\<close>

text \<open>\<open>Array.prototype.join\<close> with the default separator.\<close>

fun join_comma :: "string list \<Rightarrow> string" where
  "join_comma [] = []"
| "join_comma [s] = s"
| "join_comma (s # t # ss) = s @ '','' @ join_comma (t # ss)"

text \<open>The conversions of a list of values, in order: the first that throws ends them.\<close>

fun collect :: "(js_error + 'a) list \<Rightarrow> js_error + 'a list" where
  "collect [] = Inr []"
| "collect (Inl e # rs) = Inl e"
| "collect (Inr s # rs) = (case collect rs of Inl e \<Rightarrow> Inl e | Inr ss \<Rightarrow> Inr (s # ss))"

text \<open>
  The abstract operation \<open>ToString\<close> on a parsed value, as a template literal and a
  string-typed setter apply it. A primitive has its rendering. An object goes through
  \<open>OrdinaryToPrimitive\<close> with the hint \<open>string\<close>: it looks up \<open>toString\<close> and then
  \<open>valueOf\<close> and calls the one that is callable. A parsed object without an own key
  \<open>toString\<close> inherits \<open>Object.prototype.toString\<close>, which gives \<open>[object Object]\<close>. An own
  key \<open>toString\<close> holds a parsed value, which is never callable; \<open>valueOf\<close> is then either
  an own key, not callable either, or the inherited one, which returns the object itself,
  not a primitive: the conversion throws a \<open>TypeError\<close>. An array inherits
  \<open>Array.prototype.toString\<close>, which joins the elements: a \<open>null\<close> element is rendered
  empty, every other element is converted in turn, and a conversion that throws ends
  the join.
\<close>

fun ToString :: "json \<Rightarrow> js_error + string" where
  "ToString JNull = Inr ''null''"
| "ToString (JBool b) = Inr (if b then ''true'' else ''false'')"
| "ToString (JNum r) = Inr r"
| "ToString (JStr s) = Inr s"
| "ToString (JArr xs) =
     (case collect (map (\<lambda>x. if x = JNull then Inr [] else ToString x) xs) of
        Inl e \<Rightarrow> Inl e
      | Inr ss \<Rightarrow> Inr (join_comma ss))"
| "ToString (JObj kvs) =
     (case map_of kvs ''toString'' of
        None \<Rightarrow> Inr ''[object Object]''
      | Some f \<Rightarrow> Inl TypeError)"

text \<open>\<open>ToString\<close> on what a property read produces: \<open>undefined\<close> has its own rendering.\<close>

definition ToString_val :: "jsval \<Rightarrow> js_error + string" where
  "ToString_val v = (case v of None \<Rightarrow> Inr ''undefined'' | Some j \<Rightarrow> ToString j)"

text \<open>
  The abstract operation \<open>ToBoolean\<close>, which decides \<open>||\<close>. The only falsy number a JSON
  text denotes is zero, rendered \<open>0\<close>.
\<close>

fun ToBoolean :: "jsval \<Rightarrow> bool" where
  "ToBoolean None = False"
| "ToBoolean (Some JNull) = False"
| "ToBoolean (Some (JBool b)) = b"
| "ToBoolean (Some (JNum r)) = (r \<noteq> ''0'')"
| "ToBoolean (Some (JStr s)) = (s \<noteq> [])"
| "ToBoolean (Some (JArr xs)) = True"
| "ToBoolean (Some (JObj kvs)) = True"

text \<open>
  The property read \<open>v.k\<close> on a parsed body, for the two keys the handler reads,
  \<open>response\<close> and \<open>detail\<close> (neither is a property of a prototype): it throws on \<open>null\<close>,
  finds an own property of an object, and is \<open>undefined\<close> everywhere else.
\<close>

fun Get :: "json \<Rightarrow> string \<Rightarrow> js_error + jsval" where
  "Get JNull k = Inl TypeError"
| "Get (JObj kvs) k = Inr (map_of kvs k)"
| "Get v k = Inr None"

text \<open>\<open>a || b\<close>: the left operand when it is truthy, the right one otherwise.\<close>

definition js_or :: "jsval \<Rightarrow> jsval \<Rightarrow> jsval" where
  "js_or a b = (if ToBoolean a then a else b)"

text \<open>The decimal rendering of a status code, as \<open>ToString\<close> gives it for an integer.\<close>

definition digit_char :: "nat \<Rightarrow> char" where
  "digit_char d = ''0123456789'' ! d"

function string_of_nat :: "nat \<Rightarrow> string" where
  "string_of_nat n =
     (if n < 10 then [digit_char n] else string_of_nat (n div 10) @ [digit_char (n mod 10)])"
  by pat_completeness auto
termination
  by (relation "measure (\<lambda>n. n)") auto

declare string_of_nat.simps [simp del]

subsection \<open>The page\<close>

text \<open>
  The three elements the handler looks up, and the event.
\<close>

record page =
  default_prevented :: bool          \<comment> \<open>the event's canceled flag\<close>
  submit_disabled :: bool            \<comment> \<open>\<open>submitBtn.disabled\<close>\<close>
  indicator_classes :: "string list" \<comment> \<open>\<open>loadingIndicator.classList\<close>\<close>
  output_text :: string              \<comment> \<open>\<open>responseOutput.textContent\<close>\<close>
  output_color :: string             \<comment> \<open>\<open>responseOutput.style.color\<close>\<close>

text \<open>
  What the setter of \<open>textContent\<close> stores. The DOM declares the attribute as a nullable
  string (\<open>attribute DOMString? textContent\<close> of the interface \<open>Node\<close>). Web IDL converts a
  JavaScript value to a nullable type by sending both \<open>null\<close> and \<open>undefined\<close> to the IDL
  \<open>null\<close>, and every other value through the conversion of the inner type, here
  \<open>ToString\<close>, which can throw; the setter then treats \<open>null\<close> as the empty string. An
  assignment whose conversion throws stores nothing.
\<close>

definition textContent_of :: "jsval \<Rightarrow> js_error + string" where
  "textContent_of v =
     (case v of None \<Rightarrow> Inr [] | Some JNull \<Rightarrow> Inr [] | Some j \<Rightarrow> ToString j)"

text \<open>\<open>classList.add\<close> and \<open>classList.remove\<close> on an ordered set of tokens.\<close>

definition classList_add :: "string \<Rightarrow> string list \<Rightarrow> string list" where
  "classList_add c cs = (if c \<in> set cs then cs else cs @ [c])"

definition classList_remove :: "string \<Rightarrow> string list \<Rightarrow> string list" where
  "classList_remove c cs = filter (\<lambda>x. x \<noteq> c) cs"

subsection \<open>The request and the network\<close>

datatype form_value = Text string | File string string

type_synonym formdata = "(string \<times> form_value) list"

record request =
  url :: string
  http_method :: string  \<comment> \<open>the member \<open>method\<close> of the init object\<close>
  body :: formdata
  headers :: "(string \<times> string) list"

text \<open>
  What the two \<open>await\<close>s return: \<open>fetch\<close> rejects, or resolves to a response with a status
  whose \<open>json()\<close> rejects or resolves to a value.
\<close>

datatype json_result = NotJson | Json json

datatype network = Rejects | Responds nat json_result

text \<open>\<open>response.ok\<close>: the status is in the range 200 to 299.\<close>

definition ok :: "nat \<Rightarrow> bool" where
  "ok st = (200 \<le> st \<and> st \<le> 299)"

subsection \<open>Effects\<close>

datatype effect =
    PreventDefault
  | NewFormData formdata
  | SetDisabled bool
  | ClassListRemove string
  | ClassListAdd string
  | SetTextContent jsval
  | SetColor string
  | Fetch request
  | ReadJson
  | ConsoleError string js_error

fun exec :: "page \<Rightarrow> effect \<Rightarrow> page" where
  "exec p PreventDefault = p\<lparr>default_prevented := True\<rparr>"
| "exec p (NewFormData fd) = p"
| "exec p (SetDisabled b) = p\<lparr>submit_disabled := b\<rparr>"
| "exec p (ClassListRemove c) = p\<lparr>indicator_classes := classList_remove c (indicator_classes p)\<rparr>"
| "exec p (ClassListAdd c) = p\<lparr>indicator_classes := classList_add c (indicator_classes p)\<rparr>"
| "exec p (SetTextContent v) =
     (case textContent_of v of Inl e \<Rightarrow> p | Inr s \<Rightarrow> p\<lparr>output_text := s\<rparr>)"
| "exec p (SetColor c) = p\<lparr>output_color := c\<rparr>"
| "exec p (Fetch r) = p"
| "exec p ReadJson = p"
| "exec p (ConsoleError l e) = p"

definition run :: "effect list \<Rightarrow> page \<Rightarrow> page" where
  "run es p = foldl exec p es"

subsection \<open>The handler\<close>

definition placeholder :: string where
  "placeholder = ''Mandefa ny fangatahana any amin'' @ [CHR 0x27] @ ''ny FastAPI...''"

definition connection_failure :: string where
  "connection_failure =
     ''Erreur de connexion: Tsy tafiditra tamin'' @ [CHR 0x27] @ ''ny serveur backend FastAPI.''"

definition fallback :: string where
  "fallback = ''Erreur inconnue du serveur.''"

definition console_label :: string where
  "console_label = ''Erreur de la requ'' @ [CHR 0xC3, CHR 0xAA] @ ''te:''"

text \<open>Lines 2 to 16: everything before the \<open>try\<close>.\<close>

definition busy_entry :: "formdata \<Rightarrow> effect list" where
  "busy_entry form =
     [PreventDefault,
      NewFormData form,
      SetDisabled True,
      ClassListRemove ''hidden'',
      SetTextContent (Some (JStr placeholder)),
      SetColor ''black'']"

text \<open>The call of \<open>fetch\<close>: the init object has the members \<open>method\<close> and \<open>body\<close> only.\<close>

definition the_request :: "formdata \<Rightarrow> request" where
  "the_request fd =
     \<lparr>url = ''/api/process_query'', http_method = ''POST'', body = fd, headers = []\<rparr>"

text \<open>
  The template literal of the error branch: the status, then \<open>result.detail || '...'\<close>,
  each converted by \<open>ToString\<close>. The conversion of the detail can throw.
\<close>

definition error_text :: "nat \<Rightarrow> jsval \<Rightarrow> js_error + string" where
  "error_text st detail =
     (case ToString_val (js_or detail (Some (JStr fallback))) of
        Inl e \<Rightarrow> Inl e
      | Inr t \<Rightarrow> Inr (''ERREUR ('' @ string_of_nat st @ ''): '' @ t))"

text \<open>
  Lines 18 to 35, the \<open>try\<close> block: the effects performed, and the exception that ended
  the block, if one did. An exception is thrown by a rejected \<open>fetch\<close>, by a rejected
  \<open>json()\<close>, by the read of \<open>response\<close> or \<open>detail\<close> from \<open>null\<close>, by the setter of
  \<open>textContent\<close> on line 29 and by the template literal on line 32 when the value has no
  string; in the last two cases nothing is assigned.
\<close>

definition try_block :: "formdata \<Rightarrow> network \<Rightarrow> effect list \<times> js_error option" where
  "try_block fd net =
     (case net of
        Rejects \<Rightarrow> ([Fetch (the_request fd)], Some FetchRejected)
      | Responds st NotJson \<Rightarrow> ([Fetch (the_request fd), ReadJson], Some JsonRejected)
      | Responds st (Json result) \<Rightarrow>
          if ok st then
            (case Get result ''response'' of
               Inl e \<Rightarrow> ([Fetch (the_request fd), ReadJson], Some e)
             | Inr v \<Rightarrow>
                 (case textContent_of v of
                    Inl e \<Rightarrow> ([Fetch (the_request fd), ReadJson], Some e)
                  | Inr s \<Rightarrow> ([Fetch (the_request fd), ReadJson, SetTextContent v], None)))
          else
            (case Get result ''detail'' of
               Inl e \<Rightarrow> ([Fetch (the_request fd), ReadJson], Some e)
             | Inr d \<Rightarrow>
                 (case error_text st d of
                    Inl e \<Rightarrow> ([Fetch (the_request fd), ReadJson], Some e)
                  | Inr t \<Rightarrow>
                      ([Fetch (the_request fd), ReadJson,
                        SetTextContent (Some (JStr t)), SetColor ''red''], None))))"

text \<open>Lines 36 to 39, the \<open>catch\<close> block.\<close>

definition catch_block :: "js_error \<Rightarrow> effect list" where
  "catch_block e =
     [ConsoleError console_label e,
      SetTextContent (Some (JStr connection_failure)),
      SetColor ''red'']"

text \<open>Lines 40 to 44, the \<open>finally\<close> block.\<close>

definition finally_block :: "effect list" where
  "finally_block = [SetDisabled False, ClassListAdd ''hidden'']"

text \<open>The \<open>try\<close> block with its \<open>catch\<close>.\<close>

definition guarded :: "formdata \<Rightarrow> network \<Rightarrow> effect list" where
  "guarded fd net =
     (case try_block fd net of
        (es, None) \<Rightarrow> es
      | (es, Some e) \<Rightarrow> es @ catch_block e)"

text \<open>The whole handler, from the trigger to the settlement of its promise.\<close>

definition on_submit :: "formdata \<Rightarrow> network \<Rightarrow> effect list" where
  "on_submit form net = busy_entry form @ guarded form net @ finally_block"

definition settle :: "formdata \<Rightarrow> network \<Rightarrow> page \<Rightarrow> page" where
  "settle form net p = run (on_submit form net) p"

subsection \<open>Observations\<close>

definition loading_visible :: "page \<Rightarrow> bool" where
  "loading_visible p = (''hidden'' \<notin> set (indicator_classes p))"

definition busy :: "page \<Rightarrow> bool" where
  "busy p = (submit_disabled p \<and> loading_visible p)"

definition idle :: "page \<Rightarrow> bool" where
  "idle p = (\<not> submit_disabled p \<and> \<not> loading_visible p)"

text \<open>The values assigned to \<open>textContent\<close>, in order.\<close>

fun text_writes :: "effect list \<Rightarrow> jsval list" where
  "text_writes [] = []"
| "text_writes (SetTextContent v # es) = v # text_writes es"
| "text_writes (e # es) = text_writes es"

text \<open>The requests sent, in order.\<close>

fun requests :: "effect list \<Rightarrow> request list" where
  "requests [] = []"
| "requests (Fetch r # es) = r # requests es"
| "requests (e # es) = requests es"

text \<open>The diagnostic records written to the console, in order.\<close>

fun console_records :: "effect list \<Rightarrow> (string \<times> js_error) list" where
  "console_records [] = []"
| "console_records (ConsoleError l e # es) = (l, e) # console_records es"
| "console_records (e # es) = console_records es"

text \<open>The effects that write the disabled flag or the class list.\<close>

fun touches_busy :: "effect \<Rightarrow> bool" where
  "touches_busy (SetDisabled b) = True"
| "touches_busy (ClassListRemove c) = True"
| "touches_busy (ClassListAdd c) = True"
| "touches_busy e = False"

text \<open>Submissions one after the other, each settled before the next is triggered.\<close>

definition submit_all :: "(formdata \<times> network) list \<Rightarrow> page \<Rightarrow> page" where
  "submit_all subs p = foldl (\<lambda>q (form, net). settle form net q) p subs"

text \<open>A page at rest, nothing submitted yet.\<close>

definition page0 :: page where
  "page0 = \<lparr>default_prevented = False, submit_disabled = False,
     indicator_classes = [''hidden''], output_text = [], output_color = []\<rparr>"

section \<open>Properties\<close>

subsection \<open>Auxiliary facts\<close>

lemmas handler_defs = settle_def run_def on_submit_def guarded_def try_block_def busy_entry_def
  catch_block_def finally_block_def

lemma textContent_of_string [simp]: "textContent_of (Some (JStr s)) = Inr s"
  by (simp add: textContent_of_def)

lemma run_append: "run (es @ fs) p = run fs (run es p)"
  by (simp add: run_def)

lemma exec_untouched:
  "\<not> touches_busy e \<Longrightarrow>
     submit_disabled (exec p e) = submit_disabled p
     \<and> indicator_classes (exec p e) = indicator_classes p"
  by (cases e) (simp_all split: sum.split)

lemma run_untouched:
  "list_all (\<lambda>e. \<not> touches_busy e) es \<Longrightarrow>
     submit_disabled (run es p) = submit_disabled p
     \<and> indicator_classes (run es p) = indicator_classes p"
proof (induction es arbitrary: p)
  case Nil
  then show ?case by (simp add: run_def)
next
  case (Cons e es)
  from Cons.prems have e: "\<not> touches_busy e" and es: "list_all (\<lambda>e. \<not> touches_busy e) es"
    by simp_all
  have "run (e # es) p = run es (exec p e)"
    by (simp add: run_def)
  with Cons.IH [OF es, of "exec p e"] exec_untouched [OF e, of p] show ?case
    by simp
qed

text \<open>Nothing between the entry and the \<open>finally\<close> block writes the flag or the class list.\<close>

lemma guarded_untouched: "list_all (\<lambda>e. \<not> touches_busy e) (guarded form net)"
  by (simp add: guarded_def try_block_def catch_block_def
      split: network.split json_result.split sum.split)

lemma busy_after_entry:
  "busy (run [PreventDefault, NewFormData form, SetDisabled True, ClassListRemove ''hidden''] p)"
  by (simp add: run_def busy_def loading_visible_def classList_remove_def)

lemma idle_settle: "idle (settle form net p)"
  by (simp add: handler_defs idle_def loading_visible_def classList_add_def
      split: network.split json_result.split sum.split)

lemma idle_submit_all: "idle p \<Longrightarrow> idle (submit_all subs p)"
proof (induction subs arbitrary: p)
  case Nil
  then show ?case by (simp add: submit_all_def)
next
  case (Cons s subs)
  obtain form net where s: "s = (form, net)" by (cases s)
  have "submit_all (s # subs) p = submit_all subs (settle form net p)"
    by (simp add: submit_all_def s)
  with Cons.IH [OF idle_settle] show ?case by simp
qed

lemma busy_window:
  assumes lo: "4 \<le> k" and hi: "k + length finally_block \<le> length (on_submit form net)"
  shows "busy (run (take k (on_submit form net)) p)"
proof -
  define pre where
    "pre = [PreventDefault, NewFormData form, SetDisabled True, ClassListRemove ''hidden'']"
  define mid where
    "mid = [SetTextContent (Some (JStr placeholder)), SetColor ''black''] @ guarded form net"
  have split: "on_submit form net = pre @ mid @ finally_block"
    by (simp add: on_submit_def busy_entry_def pre_def mid_def)
  have len: "length pre = 4"
    by (simp add: pre_def)
  have "k - 4 \<le> length mid"
    using hi by (simp add: split len)
  then have "take k (on_submit form net) = pre @ take (k - 4) mid"
    using lo by (simp add: split len)
  moreover have "list_all (\<lambda>e. \<not> touches_busy e) (take (k - 4) mid)"
  proof -
    have "list_all (\<lambda>e. \<not> touches_busy e) mid"
      using guarded_untouched [of form net] by (simp add: mid_def)
    then show ?thesis
      by (auto simp: list_all_iff dest: in_set_takeD)
  qed
  moreover have "busy (run pre p)"
    using busy_after_entry [of form p] by (simp add: pre_def)
  ultimately show ?thesis
    using run_untouched [of "take (k - 4) mid" "run pre p"]
    by (simp add: run_append busy_def loading_visible_def)
qed

lemma prevented_stays: "default_prevented p \<Longrightarrow> default_prevented (run es p)"
proof (induction es arbitrary: p)
  case Nil
  then show ?case by (simp add: run_def)
next
  case (Cons e es)
  have "default_prevented (exec p e)"
    using Cons.prems by (cases e) (simp_all split: sum.split)
  from Cons.IH [OF this] show ?case
    by (simp add: run_def)
qed

lemma sublist_tail: "sublist ys (xs @ ys)"
  using sublist_appendI [of ys xs "[]"] by simp


text \<open>The paths through the \<open>try\<close> block and its \<open>catch\<close>.\<close>

lemma guarded_paths:
  "(\<exists>st b v s. net = Responds st (Json b) \<and> ok st \<and> Get b ''response'' = Inr v
       \<and> textContent_of v = Inr s
       \<and> guarded form net = [Fetch (the_request form), ReadJson, SetTextContent v])
   \<or> (\<exists>st b d t. net = Responds st (Json b) \<and> \<not> ok st \<and> Get b ''detail'' = Inr d
       \<and> error_text st d = Inr t
       \<and> guarded form net =
           [Fetch (the_request form), ReadJson, SetTextContent (Some (JStr t)), SetColor ''red''])
   \<or> (\<exists>e. guarded form net = [Fetch (the_request form)] @ catch_block e
       \<or> guarded form net = [Fetch (the_request form), ReadJson] @ catch_block e)"
proof (cases net)
  case Rejects
  then show ?thesis
    by (auto simp: guarded_def try_block_def)
next
  case (Responds st r)
  show ?thesis
  proof (cases r)
    case NotJson
    with Responds show ?thesis
      by (auto simp: guarded_def try_block_def)
  next
    case (Json b)
    show ?thesis
    proof (cases "ok st")
      case True
      show ?thesis
      proof (cases "Get b ''response''")
        case (Inl e)
        with Responds Json True show ?thesis
          by (auto simp: guarded_def try_block_def)
      next
        case (Inr v)
        with Responds Json True show ?thesis
          by (cases "textContent_of v") (auto simp: guarded_def try_block_def)
      qed
    next
      case False
      show ?thesis
      proof (cases "Get b ''detail''")
        case (Inl e)
        with Responds Json False show ?thesis
          by (auto simp: guarded_def try_block_def)
      next
        case (Inr d)
        with Responds Json False show ?thesis
          by (cases "error_text st d") (auto simp: guarded_def try_block_def)
      qed
    qed
  qed
qed

subsection \<open>The restore step\<close>

text \<open>
  Claim C1. Whatever the network answers (a response of any status with any body, a body
  that is not JSON, a rejected \<open>fetch\<close>), after the handler settles the submit button is
  enabled and the loading indicator is hidden. The restore step runs exactly once on
  every path: the effect list holds \<open>submitBtn.disabled = false\<close> once and
  \<open>classList.add('hidden')\<close> once, and they are its last two effects.
\<close>

theorem restore_exactly_once:
  "\<not> submit_disabled (settle form net p)
   \<and> \<not> loading_visible (settle form net p)
   \<and> count_list (on_submit form net) (SetDisabled False) = 1
   \<and> count_list (on_submit form net) (ClassListAdd ''hidden'') = 1
   \<and> drop (length (on_submit form net) - 2) (on_submit form net) = finally_block"
  by (simp add: handler_defs loading_visible_def classList_add_def
      split: network.split json_result.split sum.split)

theorem restore_exactly_once_witness:
  "\<not> submit_disabled (settle [] (Responds 500 NotJson) page0)
   \<and> \<not> loading_visible (settle [] (Responds 500 NotJson) page0)
   \<and> count_list (on_submit [] (Responds 500 NotJson)) (SetDisabled False) = 1
   \<and> count_list (on_submit [] (Responds 500 NotJson)) (ClassListAdd ''hidden'') = 1"
  using restore_exactly_once [of "[]" "Responds 500 NotJson" page0] by blast

subsection \<open>One outcome text\<close>

text \<open>
  Claim C2, amended. On every path the handler assigns \<open>textContent\<close> exactly twice:
  first the placeholder, on entry, then the text of exactly one of the three outcome
  writes, which is what the output shows at settlement, never a mix. The three writes
  exclude one another: the \<open>response\<close> field read from the body of a status in the
  success range, with nothing written to the console; the text \<open>ERREUR (status): \<close>
  followed by the rendering of the detail or of the fallback phrase, for any other
  status, with nothing written to the console; and the fixed connection failure text
  of the \<open>catch\<close> block, with its one console record. The shown text is the
  placeholder's string only when the success branch wrote it, that is when the
  \<open>response\<close> field sent by the server renders as that very string.
\<close>

theorem one_outcome_text_shown:
  "\<exists>w. text_writes (on_submit form net) = [Some (JStr (''Mandefa ny fangatahana any amin'' @ [CHR 0x27] @ ''ny FastAPI...'')), w]
     \<and> textContent_of w = Inr (output_text (settle form net p))
     \<and> ((\<exists>st b. net = Responds st (Json b) \<and> ok st \<and> Get b ''response'' = Inr w
            \<and> console_records (on_submit form net) = [])
        \<or> (\<exists>st b d t. net = Responds st (Json b) \<and> \<not> ok st \<and> Get b ''detail'' = Inr d
            \<and> ToString_val (js_or d (Some (JStr ''Erreur inconnue du serveur.''))) = Inr t
            \<and> w = Some (JStr (''ERREUR ('' @ string_of_nat st @ ''): '' @ t))
            \<and> console_records (on_submit form net) = [])
        \<or> (\<exists>e. w = Some (JStr (''Erreur de connexion: Tsy tafiditra tamin'' @ [CHR 0x27] @ ''ny serveur backend FastAPI.''))
            \<and> console_records (on_submit form net) = [(console_label, e)]))
     \<and> (output_text (settle form net p) = (''Mandefa ny fangatahana any amin'' @ [CHR 0x27] @ ''ny FastAPI...'') \<longrightarrow>
          (\<exists>st b. net = Responds st (Json b) \<and> ok st \<and> Get b ''response'' = Inr w))"
proof -
  consider
    (success) st b v s where "net = Responds st (Json b)" "ok st" "Get b ''response'' = Inr v"
      "textContent_of v = Inr s"
      "guarded form net = [Fetch (the_request form), ReadJson, SetTextContent v]"
  | (error) st b d t where "net = Responds st (Json b)" "\<not> ok st" "Get b ''detail'' = Inr d"
      "error_text st d = Inr t"
      "guarded form net =
         [Fetch (the_request form), ReadJson, SetTextContent (Some (JStr t)), SetColor ''red'']"
  | (caught) e where "guarded form net = [Fetch (the_request form)] @ catch_block e
      \<or> guarded form net = [Fetch (the_request form), ReadJson] @ catch_block e"
    using guarded_paths [of net form] by blast
  then show ?thesis
  proof cases
    case success
    have "text_writes (on_submit form net) = [Some (JStr (''Mandefa ny fangatahana any amin'' @ [CHR 0x27] @ ''ny FastAPI...'')), v]"
      by (simp add: on_submit_def busy_entry_def finally_block_def placeholder_def success(5))
    moreover have "textContent_of v = Inr (output_text (settle form net p))"
      by (simp add: settle_def run_def on_submit_def busy_entry_def finally_block_def
          success(4,5))
    moreover have "console_records (on_submit form net) = []"
      by (simp add: on_submit_def busy_entry_def finally_block_def success(5))
    ultimately show ?thesis
      using success(1,2,3) by blast
  next
    case error
    obtain u where u: "ToString_val (js_or d (Some (JStr ''Erreur inconnue du serveur.''))) = Inr u"
      and t: "t = ''ERREUR ('' @ string_of_nat st @ ''): '' @ u"
      using error(4) by (auto simp: error_text_def fallback_def split: sum.splits)
    have "text_writes (on_submit form net) = [Some (JStr (''Mandefa ny fangatahana any amin'' @ [CHR 0x27] @ ''ny FastAPI...'')), Some (JStr t)]"
      by (simp add: on_submit_def busy_entry_def finally_block_def placeholder_def error(5))
    moreover have shown: "output_text (settle form net p) = t"
      by (simp add: settle_def run_def on_submit_def busy_entry_def finally_block_def error(5))
    moreover have "output_text (settle form net p) \<noteq> (''Mandefa ny fangatahana any amin'' @ [CHR 0x27] @ ''ny FastAPI...'')"
      by (simp add: shown t)
    moreover have "console_records (on_submit form net) = []"
      by (simp add: on_submit_def busy_entry_def finally_block_def error(5))
    ultimately show ?thesis
      using error(1,2,3) u t by auto
  next
    case caught
    have "text_writes (on_submit form net) = [Some (JStr (''Mandefa ny fangatahana any amin'' @ [CHR 0x27] @ ''ny FastAPI...'')), Some (JStr (''Erreur de connexion: Tsy tafiditra tamin'' @ [CHR 0x27] @ ''ny serveur backend FastAPI.''))]"
      using caught
      by (auto simp: on_submit_def busy_entry_def finally_block_def catch_block_def
          placeholder_def connection_failure_def)
    moreover have shown: "output_text (settle form net p) = (''Erreur de connexion: Tsy tafiditra tamin'' @ [CHR 0x27] @ ''ny serveur backend FastAPI.'')"
      using caught
      by (auto simp: settle_def run_def on_submit_def busy_entry_def finally_block_def
          catch_block_def connection_failure_def)
    moreover have "console_records (on_submit form net) = [(console_label, e)]"
      using caught
      by (auto simp: on_submit_def busy_entry_def finally_block_def catch_block_def)
    moreover have "output_text (settle form net p) \<noteq> (''Mandefa ny fangatahana any amin'' @ [CHR 0x27] @ ''ny FastAPI...'')"
      by (simp add: shown)
    ultimately show ?thesis
      by auto
  qed
qed

theorem one_outcome_text_shown_witness:
  "text_writes (on_submit [] (Responds 422 (Json (JObj [(''detail'', JStr ''Invalid file type'')]))))
     = [Some (JStr (''Mandefa ny fangatahana any amin'' @ [CHR 0x27] @ ''ny FastAPI...'')), Some (JStr ''ERREUR (422): Invalid file type'')]
   \<and> output_text
        (settle [] (Responds 422 (Json (JObj [(''detail'', JStr ''Invalid file type'')]))) page0)
     = ''ERREUR (422): Invalid file type''
   \<and> console_records
        (on_submit [] (Responds 422 (Json (JObj [(''detail'', JStr ''Invalid file type'')]))))
     = []"
proof -
  let ?net = "Responds 422 (Json (JObj [(''detail'', JStr ''Invalid file type'')]))"
  have writes: "text_writes (on_submit [] ?net)
      = [Some (JStr (''Mandefa ny fangatahana any amin'' @ [CHR 0x27] @ ''ny FastAPI...'')), Some (JStr ''ERREUR (422): Invalid file type'')]"
    by (simp add: handler_defs ok_def error_text_def ToString_val_def js_or_def
        string_of_nat.simps digit_char_def placeholder_def)
  have records: "console_records (on_submit [] ?net) = []"
    by (simp add: handler_defs ok_def error_text_def ToString_val_def js_or_def)
  from one_outcome_text_shown [of "[]" ?net page0] writes
  have "textContent_of (Some (JStr ''ERREUR (422): Invalid file type''))
      = Inr (output_text (settle [] ?net page0))"
    by auto
  then have "output_text (settle [] ?net page0) = ''ERREUR (422): Invalid file type''"
    by simp
  with writes records show ?thesis
    by simp
qed

text \<open>
  Claim C2 as stated fails when the server answers 200 with the placeholder's own string
  as the \<open>response\<close> field: the output then shows that string at settlement.
\<close>

theorem placeholder_echo_counterexample:
  "output_text
     (settle [] (Responds 200 (Json (JObj [(''response'', JStr (''Mandefa ny fangatahana any amin'' @ [CHR 0x27] @ ''ny FastAPI...''))]))) page0)
     = (''Mandefa ny fangatahana any amin'' @ [CHR 0x27] @ ''ny FastAPI...'')
   \<and> text_writes (on_submit [] (Responds 200 (Json (JObj [(''response'', JStr (''Mandefa ny fangatahana any amin'' @ [CHR 0x27] @ ''ny FastAPI...''))]))))
     = [Some (JStr (''Mandefa ny fangatahana any amin'' @ [CHR 0x27] @ ''ny FastAPI...'')), Some (JStr (''Mandefa ny fangatahana any amin'' @ [CHR 0x27] @ ''ny FastAPI...''))]"
  by (simp add: handler_defs ok_def placeholder_def)

subsection \<open>The busy window\<close>

text \<open>
  Claim C3. From the moment the entry has disabled the button and revealed the indicator
  (its first four effects, which run in the trigger's own turn, before any suspension)
  up to the start of the \<open>finally\<close> block, the button is disabled and the indicator is
  visible after every effect, in particular while the handler is suspended at \<open>fetch\<close>
  and at \<open>response.json()\<close>. At settlement the button is enabled and the indicator
  hidden, on every path. A page that is at rest before the first trigger is therefore at
  rest before every later trigger, when each submission settles before the next starts.
\<close>

theorem busy_window_invariant:
  "(\<forall>k. 4 \<le> k \<and> k + length finally_block \<le> length (on_submit form net) \<longrightarrow>
        busy (run (take k (on_submit form net)) p))
   \<and> idle (settle form net p)
   \<and> (idle p \<longrightarrow> idle (submit_all subs p))"
  using busy_window idle_settle idle_submit_all by blast

theorem busy_window_invariant_witness:
  "4 \<le> (8::nat) \<and> 8 + length finally_block \<le> length (on_submit [] Rejects)
   \<and> busy (run (take 8 (on_submit [] Rejects)) page0)
   \<and> idle (settle [] Rejects page0)
   \<and> idle page0 \<and> idle (submit_all [([], Rejects), ([], Responds 200 NotJson)] page0)"
proof -
  have window: "4 \<le> (8::nat) \<and> 8 + length finally_block \<le> length (on_submit [] Rejects)"
    by (simp add: on_submit_def busy_entry_def guarded_def try_block_def catch_block_def
        finally_block_def)
  have rest: "idle page0"
    by (simp add: idle_def page0_def loading_visible_def)
  from busy_window_invariant [of "[]" Rejects page0 "[([], Rejects), ([], Responds 200 NotJson)]"]
    window rest
  show ?thesis by blast
qed

subsection \<open>The success branch\<close>

text \<open>
  Claim C4, amended. For a response whose status is in the success range, whose body
  parses as JSON to a value other than \<open>null\<close> (so that \<open>response\<close> can be read from it)
  and whose \<open>response\<close> field the setter of \<open>textContent\<close> can convert to a string, the
  output text at settlement is that field as the setter stores it, which for a string
  is the string itself, and the output color is the neutral \<open>black\<close> that the entry set.
\<close>

theorem success_shows_response_field:
  assumes "ok st" and "Get b ''response'' = Inr v" and "textContent_of v = Inr s"
  shows "output_text (settle form (Responds st (Json b)) p) = s
    \<and> output_color (settle form (Responds st (Json b)) p) = ''black''
    \<and> text_writes (on_submit form (Responds st (Json b))) = [Some (JStr (''Mandefa ny fangatahana any amin'' @ [CHR 0x27] @ ''ny FastAPI...'')), v]
    \<and> (\<forall>t. v = Some (JStr t) \<longrightarrow> s = t)"
  using assms by (auto simp: handler_defs placeholder_def)

theorem success_shows_response_field_witness:
  "ok 200 \<and> Get (JObj [(''response'', JStr ''OK-42'')]) ''response'' = Inr (Some (JStr ''OK-42''))
   \<and> textContent_of (Some (JStr ''OK-42'')) = Inr ''OK-42''
   \<and> output_text (settle [] (Responds 200 (Json (JObj [(''response'', JStr ''OK-42'')]))) page0)
       = ''OK-42''
   \<and> output_color (settle [] (Responds 200 (Json (JObj [(''response'', JStr ''OK-42'')]))) page0)
       = ''black''"
proof -
  have pre: "ok 200"
    "Get (JObj [(''response'', JStr ''OK-42'')]) ''response'' = Inr (Some (JStr ''OK-42''))"
    "textContent_of (Some (JStr ''OK-42'')) = Inr ''OK-42''"
    by (simp_all add: ok_def)
  from success_shows_response_field [OF pre, of "[]" page0] pre show ?thesis
    by blast
qed

text \<open>
  Claim C4 as stated fails for a status in the success range whose body is not JSON
  (204 with no body), whose body is \<open>null\<close>, or whose \<open>response\<close> field is an object with
  an own key \<open>toString\<close>: each ends in the \<open>catch\<close> block, with the connection failure
  text in red.
\<close>

theorem success_status_failure_counterexample:
  "ok 204
   \<and> output_text (settle [] (Responds 204 NotJson) page0) = (''Erreur de connexion: Tsy tafiditra tamin'' @ [CHR 0x27] @ ''ny serveur backend FastAPI.'')
   \<and> output_color (settle [] (Responds 204 NotJson) page0) = ''red''
   \<and> ok 200
   \<and> output_text (settle [] (Responds 200 (Json JNull)) page0) = (''Erreur de connexion: Tsy tafiditra tamin'' @ [CHR 0x27] @ ''ny serveur backend FastAPI.'')
   \<and> output_color (settle [] (Responds 200 (Json JNull)) page0) = ''red''
   \<and> output_text
        (settle [] (Responds 200
           (Json (JObj [(''response'', JObj [(''toString'', JNum ''1'')])]))) page0) = (''Erreur de connexion: Tsy tafiditra tamin'' @ [CHR 0x27] @ ''ny serveur backend FastAPI.'')
   \<and> output_color
        (settle [] (Responds 200
           (Json (JObj [(''response'', JObj [(''toString'', JNum ''1'')])]))) page0) = ''red''"
  by (simp add: handler_defs ok_def textContent_of_def connection_failure_def)

subsection \<open>The error branch\<close>

text \<open>
  Claim C5, amended. For a response whose status is outside the success range, whose
  body parses as JSON to a value other than \<open>null\<close> (so that \<open>detail\<close> can be read from
  it) and whose \<open>detail || fallback\<close> has a string rendering, the output text at
  settlement is \<open>ERREUR (status): \<close> followed by that rendering: the fallback phrase
  when the detail is absent or falsy, the detail itself when it is a non-empty string.
  So the text contains the decimal status code, and the detail or the fallback phrase.
  The output color is \<open>red\<close>.
\<close>

theorem error_branch_text:
  assumes "\<not> ok st" and "Get b ''detail'' = Inr d"
    and "ToString_val (js_or d (Some (JStr ''Erreur inconnue du serveur.''))) = Inr t"
  shows "output_text (settle form (Responds st (Json b)) p)
      = ''ERREUR ('' @ string_of_nat st @ ''): '' @ t
    \<and> output_color (settle form (Responds st (Json b)) p) = ''red''
    \<and> sublist (string_of_nat st) (output_text (settle form (Responds st (Json b)) p))
    \<and> sublist t (output_text (settle form (Responds st (Json b)) p))
    \<and> (\<not> ToBoolean d \<longrightarrow> t = ''Erreur inconnue du serveur.'')
    \<and> (\<forall>s. d = Some (JStr s) \<and> s \<noteq> [] \<longrightarrow> t = s)
    \<and> (\<forall>j. d = Some j \<and> ToBoolean d \<longrightarrow> ToString j = Inr t)"
proof -
  have et: "error_text st d = Inr (''ERREUR ('' @ string_of_nat st @ ''): '' @ t)"
    using assms(3) by (simp add: error_text_def fallback_def)
  have shown: "output_text (settle form (Responds st (Json b)) p)
      = ''ERREUR ('' @ string_of_nat st @ ''): '' @ t"
    using assms(1,2) et by (simp add: handler_defs)
  have "output_color (settle form (Responds st (Json b)) p) = ''red''"
    using assms(1,2) et by (simp add: handler_defs)
  moreover have "sublist (string_of_nat st) (''ERREUR ('' @ string_of_nat st @ ''): '' @ t)"
    by (rule sublist_appendI [of _ "''ERREUR (''"])
  moreover have "sublist t (''ERREUR ('' @ string_of_nat st @ ''): '' @ t)"
    using sublist_tail [of t "''ERREUR ('' @ string_of_nat st @ ''): ''"] by simp
  moreover have "\<not> ToBoolean d \<longrightarrow> t = ''Erreur inconnue du serveur.''"
    using assms(3) by (auto simp: js_or_def ToString_val_def)
  moreover have "\<forall>s. d = Some (JStr s) \<and> s \<noteq> [] \<longrightarrow> t = s"
    using assms(3) by (auto simp: js_or_def ToString_val_def)
  moreover have "\<forall>j. d = Some j \<and> ToBoolean d \<longrightarrow> ToString j = Inr t"
    using assms(3) by (auto simp: js_or_def ToString_val_def)
  ultimately show ?thesis
    using shown by simp
qed

theorem error_branch_text_witness:
  "\<not> ok 422
   \<and> Get (JObj [(''detail'', JStr ''Invalid file type'')]) ''detail''
       = Inr (Some (JStr ''Invalid file type''))
   \<and> ToString_val (js_or (Some (JStr ''Invalid file type'')) (Some (JStr ''Erreur inconnue du serveur.'')))
       = Inr ''Invalid file type''
   \<and> output_text
        (settle [] (Responds 422 (Json (JObj [(''detail'', JStr ''Invalid file type'')]))) page0)
       = ''ERREUR (422): Invalid file type''
   \<and> output_color
        (settle [] (Responds 422 (Json (JObj [(''detail'', JStr ''Invalid file type'')]))) page0)
       = ''red''
   \<and> \<not> ok 500 \<and> Get (JObj []) ''detail'' = Inr None
   \<and> ToString_val (js_or None (Some (JStr ''Erreur inconnue du serveur.''))) = Inr ''Erreur inconnue du serveur.''
   \<and> output_text (settle [] (Responds 500 (Json (JObj []))) page0)
       = ''ERREUR (500): Erreur inconnue du serveur.''
   \<and> output_color (settle [] (Responds 500 (Json (JObj []))) page0) = ''red''"
proof -
  have a: "\<not> ok 422"
    "Get (JObj [(''detail'', JStr ''Invalid file type'')]) ''detail''
       = Inr (Some (JStr ''Invalid file type''))"
    "ToString_val (js_or (Some (JStr ''Invalid file type'')) (Some (JStr ''Erreur inconnue du serveur.'')))
       = Inr ''Invalid file type''"
    by (simp_all add: ok_def js_or_def ToString_val_def)
  have b: "\<not> ok 500" "Get (JObj []) ''detail'' = Inr None"
    "ToString_val (js_or None (Some (JStr ''Erreur inconnue du serveur.''))) = Inr ''Erreur inconnue du serveur.''"
    by (simp_all add: ok_def js_or_def ToString_val_def)
  have n: "string_of_nat 422 = ''422''" "string_of_nat 500 = ''500''"
    by (simp_all add: string_of_nat.simps digit_char_def)
  from error_branch_text [OF a, of "[]" page0] error_branch_text [OF b, of "[]" page0] a b
  show ?thesis
    by (simp add: n)
qed

text \<open>
  Claim C5 as stated fails for two parseable JSON bodies. For the body \<open>null\<close>, reading
  \<open>detail\<close> throws; for a detail that is an object with an own key \<open>toString\<close>, the
  template literal throws. Both happen inside the \<open>try\<close> block, and the \<open>catch\<close> block
  shows the connection failure text, which holds neither the status code nor the
  fallback phrase.
\<close>

theorem error_status_failure_counterexample:
  "output_text (settle [] (Responds 500 (Json JNull)) page0) = connection_failure
   \<and> output_text
        (settle [] (Responds 500 (Json (JObj [(''detail'', JObj [(''toString'', JNum ''1'')])])))
           page0) = connection_failure
   \<and> \<not> sublist (string_of_nat 500) connection_failure
   \<and> \<not> sublist ''Erreur inconnue du serveur.'' connection_failure"
proof -
  have "output_text (settle [] (Responds 500 (Json JNull)) page0) = connection_failure"
    by (simp add: handler_defs ok_def)
  moreover have "output_text
        (settle [] (Responds 500 (Json (JObj [(''detail'', JObj [(''toString'', JNum ''1'')])])))
           page0) = connection_failure"
    by (simp add: handler_defs ok_def error_text_def js_or_def ToString_val_def)
  moreover have "\<not> sublist (string_of_nat 500) connection_failure"
    by code_simp
  moreover have "\<not> sublist ''Erreur inconnue du serveur.'' connection_failure"
    by code_simp
  ultimately show ?thesis by simp
qed

subsection \<open>Failures\<close>





subsection \<open>The trigger and the request\<close>

text \<open>
  Claim C8. The first thing the handler does on every submission is to call
  \<open>preventDefault\<close> on the event, before any other effect and before its first
  suspension; the event stays canceled after every later effect and at settlement, so
  the browser's own submission of the form does not take place.
\<close>

theorem default_prevented_first:
  "take 1 (on_submit form net) = [PreventDefault]
   \<and> default_prevented (settle form net p)
   \<and> (\<forall>k\<ge>1. default_prevented (run (take k (on_submit form net)) p))"
proof -
  obtain rest where shape: "on_submit form net = PreventDefault # rest"
    by (simp add: on_submit_def busy_entry_def)
  have after: "default_prevented (run (PreventDefault # es) p)" for es
    using prevented_stays [of "exec p PreventDefault" es] by (simp add: run_def)
  have "take k (on_submit form net) = PreventDefault # take (k - 1) rest" if "1 \<le> k" for k
    using that by (cases k) (simp_all add: shape)
  then have "\<forall>k\<ge>1. default_prevented (run (take k (on_submit form net)) p)"
    using after by simp
  moreover have "default_prevented (settle form net p)"
    using after [of rest] by (simp add: settle_def shape)
  moreover have "take 1 (on_submit form net) = [PreventDefault]"
    by (simp add: shape)
  ultimately show ?thesis by blast
qed

theorem default_prevented_first_witness:
  "(1::nat) \<le> 7 \<and> take 1 (on_submit [] Rejects) = [PreventDefault]
   \<and> default_prevented (settle [] Rejects page0)
   \<and> default_prevented (run (take 7 (on_submit [] Rejects)) page0)"
proof -
  have "(1::nat) \<le> 7" by simp
  with default_prevented_first [of "[]" Rejects page0] show ?thesis by blast
qed

text \<open>
  Claim C9. Every run of the handler sends exactly one request, whatever the network
  answers: a \<open>POST\<close> to the path \<open>/api/process_query\<close> whose body is the form's entries as
  they were at the trigger, with no header set by the handler.
\<close>

theorem exactly_one_post:
  "requests (on_submit form net) =
     [\<lparr>url = ''/api/process_query'', http_method = ''POST'', body = form, headers = []\<rparr>]"
  by (simp add: handler_defs the_request_def
      split: network.split json_result.split sum.split)

theorem exactly_one_post_witness:
  "requests (on_submit [(''query'', Text ''hello''), (''file'', File ''a.csv'' ''x,y'')] Rejects) =
     [\<lparr>url = ''/api/process_query'', http_method = ''POST'',
       body = [(''query'', Text ''hello''), (''file'', File ''a.csv'' ''x,y'')], headers = []\<rparr>]"
  using exactly_one_post
    [of "[(''query'', Text ''hello''), (''file'', File ''a.csv'' ''x,y'')]" Rejects]
  by simp

subsection \<open>A success body without the field\<close>

text \<open>
  Claim C10, amended. For a response whose status is in the success range and whose
  parsed body yields \<open>undefined\<close> for \<open>response\<close> (an object without the field, or a
  string, number, boolean or array), the handler assigns \<open>undefined\<close> to \<open>textContent\<close>
  with no guard or fallback; the setter stores the empty string, so the output text at
  settlement is empty. The output color stays neutral.
\<close>

theorem missing_response_shows_empty:
  assumes "ok st" and "Get b ''response'' = Inr None"
  shows "text_writes (on_submit form (Responds st (Json b))) = [Some (JStr placeholder), None]
    \<and> output_text (settle form (Responds st (Json b)) p) = []
    \<and> output_color (settle form (Responds st (Json b)) p) = ''black''"
  using assms by (simp add: handler_defs textContent_of_def)

theorem missing_response_shows_empty_witness:
  "ok 200 \<and> Get (JObj []) ''response'' = Inr None
    \<and> output_text (settle [] (Responds 200 (Json (JObj []))) page0) = []
    \<and> output_color (settle [] (Responds 200 (Json (JObj []))) page0) = ''black''"
  using missing_response_shows_empty [of 200 "JObj []" "[]" page0] by (simp add: ok_def)

text \<open>
  Claim C10 as stated fails for status 200 with the body \<open>{}\<close>: the output text is not
  the string \<open>undefined\<close>.
\<close>

theorem missing_response_not_undefined_counterexample:
  "output_text (settle [] (Responds 200 (Json (JObj []))) page0) \<noteq> ''undefined''"
  by (simp add: handler_defs ok_def textContent_of_def)

end
